theory Spec2Isabelle
  imports Main "HOL-Library.Word"
begin

section \<open>Common Go notions\<close>

text \<open>
  A Go run-time panic is kept apart from a returned \<open>error\<close>: a function that panics
  returns nothing to its caller. Only the two panics the modelled code can raise are listed.
\<close>

datatype panic =
    AssignmentToNilMap        \<comment> \<open>\<^verbatim>\<open>assignment to entry in nil map\<close>\<close>
  | NilPointerDereference     \<comment> \<open>\<^verbatim>\<open>invalid memory address or nil pointer dereference\<close>\<close>

datatype 'a outcome = Panics panic | Returns 'a

text \<open>
  Modelled from the spec: \<open>model.Stage\<close> is declared in \<open>pkg/model\<close>, whose Go files
  are not among the sources at hand. The spec calls the stage kind an enumerated tag
  naming a registered executor; \<open>registry.go\<close> uses it as a map key and prints it with
  \<open>%s\<close>. It is taken to be a string type.
\<close>

type_synonym Stage = string

text \<open>
  The values of Go's \<open>error\<close> interface that the modelled functions build with
  \<open>fmt.Errorf\<close>, one constructor for each format string, carrying the formatted
  arguments. \<open>JSONError\<close> stands for whatever \<open>encoding/json\<close> reports.
\<close>

datatype error =
    StageAlreadyRegistered Stage    \<comment> \<open>\<^verbatim>\<open>executor for %s stage has already registered\<close>\<close>
  | NoRegisteredExecutor Stage      \<comment> \<open>\<^verbatim>\<open>no registered executor for stage %s\<close>\<close>
  | MustBeSet string                \<comment> \<open>\<^verbatim>\<open><field> must be set\<close>\<close>
  | UnsupportedCloudProviderType string
      \<comment> \<open>\<^verbatim>\<open>unsupported cloud provider type: %s\<close>, formatted with the provider's name\<close>
  | UnsupportedImageProviderType string
      \<comment> \<open>\<^verbatim>\<open>unsupported image provider type: %s\<close>, formatted with the provider's name\<close>
  | UnsupportedSealedSecretManagementType string
      \<comment> \<open>\<^verbatim>\<open>unsupported sealed secret management type: %s\<close>\<close>
  | JSONError string

section \<open>The executor registry (\<open>pkg/app/piped/executor/registry.go\<close>)\<close>

text \<open>
  \<open>Factory\<close> is \<open>func(in Input) Executor\<close>; the input and executor types are left as
  the type parameters \<open>'i\<close> and \<open>'e\<close>. A Go map value is either \<open>nil\<close> (\<open>None\<close>) or an
  allocated table (\<open>Some m\<close>). The mutex is taken and released inside each method and is
  left out: the methods are modelled as atomic steps on the registry.
\<close>

type_synonym ('k, 'v) gomap = "('k \<rightharpoonup> 'v) option"

definition map_lookup :: "('k, 'v) gomap \<Rightarrow> 'k \<Rightarrow> 'v option" where
  \<comment> \<open>\<^verbatim>\<open>v, ok := m[k]\<close>: reading a nil map finds nothing\<close>
  "map_lookup m k = (case m of None \<Rightarrow> None | Some t \<Rightarrow> t k)"

definition map_assign :: "('k, 'v) gomap \<Rightarrow> 'k \<Rightarrow> 'v \<Rightarrow> ('k, 'v) gomap outcome" where
  \<comment> \<open>\<^verbatim>\<open>m[k] = v\<close>: writing to a nil map panics\<close>
  "map_assign m k v =
     (case m of None \<Rightarrow> Panics AssignmentToNilMap | Some t \<Rightarrow> Returns (Some (t(k \<mapsto> v))))"

record ('i, 'e) registry =
  factories :: "(Stage, 'i \<Rightarrow> 'e) gomap"

definition Register ::
  "('i, 'e) registry \<Rightarrow> Stage \<Rightarrow> ('i \<Rightarrow> 'e) \<Rightarrow> ('i, 'e) registry \<times> error option outcome"
where
  "Register r stage f =
     (case map_lookup (factories r) stage of
        Some _ \<Rightarrow> (r, Returns (Some (StageAlreadyRegistered stage)))
      | None \<Rightarrow>
          (case map_assign (factories r) stage f of
             Panics p \<Rightarrow> (r, Panics p)
           | Returns m \<Rightarrow> (r\<lparr>factories := m\<rparr>, Returns None)))"

definition Executor ::
  "('i, 'e) registry \<Rightarrow> Stage \<Rightarrow> 'i \<Rightarrow> ('i, 'e) registry \<times> (error + 'e)"
where
  "Executor r stage in' =
     (case map_lookup (factories r) stage of
        None \<Rightarrow> (r, Inl (NoRegisteredExecutor stage))
      | Some f \<Rightarrow> (r, Inr (f in')))"

definition defaultRegistry :: "('i, 'e) registry" where
  \<comment> \<open>\<^verbatim>\<open>var defaultRegistry = &registry{}\<close>: the zero value, whose map is nil\<close>
  "defaultRegistry = \<lparr>factories = None\<rparr>"

definition DefaultRegistry :: "('i, 'e) registry" where
  "DefaultRegistry = defaultRegistry"

section \<open>The piped configuration (\<open>pkg/config/piped.go\<close>)\<close>

subsection \<open>Types of other packages\<close>

text \<open>
  Modelled from the spec: the declaration of \<open>config.Duration\<close> is not among the sources
  at hand. The spec gives the intervals as lengths of time (60 s, 5 min) and \<open>piped.go\<close>
  converts \<open>time.Minute\<close> to it, so it is \<open>time.Duration\<close>: a signed 64-bit count of
  nanoseconds, read with \<open>sint\<close> where the code compares it with zero.
\<close>

type_synonym Duration = "64 word"

definition time_Second :: Duration where
  "time_Second = 1000000000"

definition time_Minute :: Duration where
  "time_Minute = 60 * time_Second"

type_synonym bytes = "8 word list"

text \<open>
  Modelled from the spec: the provider and secret-management type tags are declared in
  \<open>pkg/model\<close>, whose Go files are not among the sources at hand. The spec names the
  cloud providers (Kubernetes, Terraform, Cloud Run, Lambda) and describes the tag as a
  \<open>type\<close> field that selects a concrete schema; \<open>piped.go\<close> names the constants it
  switches on. Each tag type is a string type: the named constants, taken to be distinct
  from each other and from the empty string, and every other string (the \<open>Other\<close>
  constructor, which also carries the zero value, the empty string).
\<close>

datatype CloudProviderType =
    CloudProviderKubernetes | CloudProviderTerraform | CloudProviderCloudRun
  | CloudProviderLambda | CloudProviderTypeOther string

datatype AnalysisProviderType =
    AnalysisProviderPrometheus | AnalysisProviderDatadog | AnalysisProviderStackdriver
  | AnalysisProviderTypeOther string

datatype ImageProviderType =
    ImageProviderTypeDockerhub | ImageProviderTypeGCR | ImageProviderTypeECR
  | ImageProviderTypeOther string

datatype SealedSecretManagementType =
    SealedSecretManagementSealingKey | SealedSecretManagementGCPKMS
  | SealedSecretManagementTypeOther string

subsection \<open>The configuration structs\<close>

text \<open>
  A struct is a record with the fields of the source, a slice is a list, a pointer is
  an option (\<open>None\<close> is \<open>nil\<close>). Field names that several structs share are
  written with the struct's name in front.
\<close>

record PipedGit =
  Username :: string
  Email :: string
  SSHConfigFilePath :: string
  Host :: string
  HostName :: string
  SSHKeyFile :: string

record PipedRepository =
  RepoID :: string
  Remote :: string
  Branch :: string

record HelmChartRepository =
  Name :: string
  Address :: string
  Username :: string
  Password :: string

record KubernetesResourceMatcher =
  APIVersion :: string
  Kind :: string

record KubernetesAppStateInformer =
  Namespace :: string
  IncludeResources :: "KubernetesResourceMatcher list"
  ExcludeResources :: "KubernetesResourceMatcher list"

record CloudProviderKubernetesConfig =
  MasterURL :: string
  KubeConfigPath :: string
  AppStateInformer :: KubernetesAppStateInformer

record CloudProviderTerraformConfig =
  Vars :: "string list"

record CloudProviderCloudRunConfig =
  Project :: string
  Region :: string
  CredentialsFile :: string

record CloudProviderLambdaConfig =
  Region :: string

record PipedCloudProvider =
  Name :: string
  Type :: CloudProviderType
  KubernetesConfig :: "CloudProviderKubernetesConfig option"
  TerraformConfig :: "CloudProviderTerraformConfig option"
  CloudRunConfig :: "CloudProviderCloudRunConfig option"
  LambdaConfig :: "CloudProviderLambdaConfig option"

record genericPipedCloudProvider =
  Name :: string
  Type :: CloudProviderType
  Config :: bytes

record AnalysisProviderPrometheusConfig =
  Address :: string
  UsernameFile :: string
  PasswordFile :: string

record AnalysisProviderDatadogConfig =
  Address :: string
  APIKeyFile :: string
  ApplicationKeyFile :: string

record AnalysisProviderStackdriverConfig =
  ServiceAccountFile :: string

record PipedAnalysisProvider =
  Name :: string
  Type :: AnalysisProviderType
  PrometheusConfig :: "AnalysisProviderPrometheusConfig option"
  DatadogConfig :: "AnalysisProviderDatadogConfig option"
  StackdriverConfig :: "AnalysisProviderStackdriverConfig option"

record ImageProviderGCRConfig =
  Domain :: string

record ImageProviderDockerhubConfig =
  Username :: string
  PasswordFile :: string

datatype ImageProviderECRConfig = ImageProviderECRConfig
  \<comment> \<open>a struct with no fields\<close>

record PipedImageProvider =
  Name :: string
  Type :: ImageProviderType
  PullInterval :: Duration
  DockerhubConfig :: "ImageProviderDockerhubConfig option"
  GCRConfig :: "ImageProviderGCRConfig option"
  ECRConfig :: "ImageProviderECRConfig option"

record genericPipedImageProvider =
  Name :: string
  Type :: ImageProviderType
  PullInterval :: Duration
  Config :: bytes

record NotificationRoute =
  Name :: string
  Receiver :: string
  Events :: "string list"
  IgnoreEvents :: "string list"
  Groups :: "string list"
  IgnoreGroups :: "string list"
  Apps :: "string list"
  IgnoreApps :: "string list"
  Envs :: "string list"
  IgnoreEnvs :: "string list"

record NotificationReceiverSlack =
  HookURL :: string

record NotificationReceiverWebhook =
  URL :: string

record NotificationReceiver =
  Name :: string
  Slack :: "NotificationReceiverSlack option"
  Webhook :: "NotificationReceiverWebhook option"

record Notifications =
  Routes :: "NotificationRoute list"
  Receivers :: "NotificationReceiver list"

record SealedSecretManagementSealingKey =
  PrivateKeyFile :: string
  PublicKeyFile :: string

record SealedSecretManagementGCPKMS =
  KeyName :: string
  DecryptServiceAccountFile :: string
  EncryptServiceAccountFile :: string

record SealedSecretManagement =
  Type :: SealedSecretManagementType
  SealingKeyConfig :: "SealedSecretManagementSealingKey option"
  GCPKMSConfig :: "SealedSecretManagementGCPKMS option"

record PipedSpec =
  ProjectID :: string
  PipedID :: string
  PipedKeyFile :: string
  APIAddress :: string
  WebAddress :: string
  SyncInterval :: Duration
  Git :: PipedGit
  Repositories :: "PipedRepository list"
  ChartRepositories :: "HelmChartRepository list"
  CloudProviders :: "PipedCloudProvider list"
  AnalysisProviders :: "PipedAnalysisProvider list"
  ImageProviders :: "PipedImageProvider list"
  Notifications :: Notifications
  SealedSecretManagement :: "SealedSecretManagement option"

subsection \<open>Validation\<close>

definition SealedSecretManagementSealingKey_Validate ::
  "SealedSecretManagementSealingKey option \<Rightarrow> error option outcome"
where
  \<comment> \<open>the receiver is a pointer; reading a field through nil panics\<close>
  "SealedSecretManagementSealingKey_Validate m =
     (case m of
        None \<Rightarrow> Panics NilPointerDereference
      | Some k \<Rightarrow>
          if PrivateKeyFile k = '''' then Returns (Some (MustBeSet ''privateKeyFile''))
          else if PublicKeyFile k = '''' then Returns (Some (MustBeSet ''publicKeyFile''))
          else Returns None)"

definition SealedSecretManagementGCPKMS_Validate ::
  "SealedSecretManagementGCPKMS option \<Rightarrow> error option outcome"
where
  "SealedSecretManagementGCPKMS_Validate m =
     (case m of
        None \<Rightarrow> Panics NilPointerDereference
      | Some k \<Rightarrow>
          if KeyName k = '''' then Returns (Some (MustBeSet ''keyName''))
          else if DecryptServiceAccountFile k = ''''
            then Returns (Some (MustBeSet ''decryptServiceAccountFile''))
          else if EncryptServiceAccountFile k = ''''
            then Returns (Some (MustBeSet ''encryptServiceAccountFile''))
          else Returns None)"

definition SealedSecretManagement_Validate ::
  "SealedSecretManagement \<Rightarrow> error option outcome"
where
  "SealedSecretManagement_Validate m =
     (case SealedSecretManagement.Type m of
        SealedSecretManagementSealingKey \<Rightarrow>
          SealedSecretManagementSealingKey_Validate (SealingKeyConfig m)
      | SealedSecretManagementGCPKMS \<Rightarrow>
          SealedSecretManagementGCPKMS_Validate (GCPKMSConfig m)
      | SealedSecretManagementTypeOther t \<Rightarrow>
          Returns (Some (UnsupportedSealedSecretManagementType t)))"

text \<open>
  \<open>Validate\<close> works on the spec through a pointer: the model returns the spec as the
  call leaves it, together with what the call returned.
\<close>

definition PipedSpec_Validate :: "PipedSpec \<Rightarrow> PipedSpec \<times> error option outcome" where
  "PipedSpec_Validate s =
     (if ProjectID s = '''' then (s, Returns (Some (MustBeSet ''projectID'')))
      else if PipedID s = '''' then (s, Returns (Some (MustBeSet ''pipedID'')))
      else if PipedKeyFile s = '''' then (s, Returns (Some (MustBeSet ''pipedKeyFile'')))
      else if APIAddress s = '''' then (s, Returns (Some (MustBeSet ''apiAddress'')))
      else if WebAddress s = '''' then (s, Returns (Some (MustBeSet ''webAddress'')))
      else
        let s' = (if sint (SyncInterval s) < 0 then s\<lparr>SyncInterval := time_Minute\<rparr> else s)
        in (case SealedSecretManagement s' of
              None \<Rightarrow> (s', Returns None)
            | Some m \<Rightarrow>
                (case SealedSecretManagement_Validate m of
                   Panics p \<Rightarrow> (s', Panics p)
                 | Returns (Some err) \<Rightarrow> (s', Returns (Some err))
                 | Returns None \<Rightarrow> (s', Returns None))))"

subsection \<open>Cloud providers of a spec\<close>

definition KubernetesAppStateInformer_zero :: KubernetesAppStateInformer where
  "KubernetesAppStateInformer_zero =
     \<lparr>Namespace = '''', IncludeResources = [], ExcludeResources = []\<rparr>"

definition CloudProviderKubernetesConfig_zero :: CloudProviderKubernetesConfig where
  \<comment> \<open>\<^verbatim>\<open>CloudProviderKubernetesConfig{}\<close>\<close>
  "CloudProviderKubernetesConfig_zero =
     \<lparr>MasterURL = '''', KubeConfigPath = '''',
      AppStateInformer = KubernetesAppStateInformer_zero\<rparr>"

definition PipedCloudProvider_zero :: PipedCloudProvider where
  \<comment> \<open>\<^verbatim>\<open>PipedCloudProvider{}\<close>\<close>
  "PipedCloudProvider_zero =
     \<lparr>PipedCloudProvider.Name = '''', PipedCloudProvider.Type = CloudProviderTypeOther '''',
      KubernetesConfig = None, TerraformConfig = None, CloudRunConfig = None,
      LambdaConfig = None\<rparr>"

definition DefaultKubernetesCloudProvider :: PipedCloudProvider where
  "DefaultKubernetesCloudProvider =
     \<lparr>PipedCloudProvider.Name = ''kubernetes-default'',
      PipedCloudProvider.Type = CloudProviderKubernetes,
      KubernetesConfig = Some CloudProviderKubernetesConfig_zero,
      TerraformConfig = None, CloudRunConfig = None, LambdaConfig = None\<rparr>"

fun EnableDefaultKubernetesCloudProvider_loop :: "PipedCloudProvider list \<Rightarrow> bool" where
  \<comment> \<open>the \<open>range\<close> loop: \<open>True\<close> when it returns from inside, \<open>False\<close> when it runs out\<close>
  "EnableDefaultKubernetesCloudProvider_loop [] = False"
| "EnableDefaultKubernetesCloudProvider_loop (cp # cps) =
     (if PipedCloudProvider.Name cp = PipedCloudProvider.Name DefaultKubernetesCloudProvider
      then True
      else EnableDefaultKubernetesCloudProvider_loop cps)"

definition EnableDefaultKubernetesCloudProvider :: "PipedSpec \<Rightarrow> PipedSpec" where
  "EnableDefaultKubernetesCloudProvider s =
     (if EnableDefaultKubernetesCloudProvider_loop (CloudProviders s) then s
      else s\<lparr>CloudProviders := CloudProviders s @ [DefaultKubernetesCloudProvider]\<rparr>)"

fun HasCloudProvider_loop ::
  "PipedCloudProvider list \<Rightarrow> string \<Rightarrow> CloudProviderType \<Rightarrow> bool"
where
  "HasCloudProvider_loop [] name t = False"
| "HasCloudProvider_loop (cp # cps) name t =
     (if PipedCloudProvider.Name cp \<noteq> name then HasCloudProvider_loop cps name t
      else if PipedCloudProvider.Type cp \<noteq> t then HasCloudProvider_loop cps name t
      else True)"

definition HasCloudProvider :: "PipedSpec \<Rightarrow> string \<Rightarrow> CloudProviderType \<Rightarrow> bool" where
  "HasCloudProvider s name t = HasCloudProvider_loop (CloudProviders s) name t"

fun FindCloudProvider_loop ::
  "PipedCloudProvider list \<Rightarrow> string \<Rightarrow> CloudProviderType \<Rightarrow> PipedCloudProvider \<times> bool"
where
  "FindCloudProvider_loop [] name t = (PipedCloudProvider_zero, False)"
| "FindCloudProvider_loop (p # ps) name t =
     (if PipedCloudProvider.Name p \<noteq> name then FindCloudProvider_loop ps name t
      else if PipedCloudProvider.Type p \<noteq> t then FindCloudProvider_loop ps name t
      else (p, True))"

definition FindCloudProvider ::
  "PipedSpec \<Rightarrow> string \<Rightarrow> CloudProviderType \<Rightarrow> PipedCloudProvider \<times> bool"
where
  "FindCloudProvider s name t = FindCloudProvider_loop (CloudProviders s) name t"

subsection \<open>Decoding provider documents\<close>

text \<open>
  \<open>encoding/json\<close> is a library of the language, not code of the repository, and the
  decoder of \<open>Duration\<close> is not among the sources at hand. \<open>json.Unmarshal(data, &v)\<close>
  is therefore a parameter of the methods below, one for each target type: it takes the
  bytes and the target as it is before the call, and gives the target as the call
  leaves it and the error it returns. The methods hand it a zero value, as the source
  does.
\<close>

type_synonym 'a json_Unmarshal = "bytes \<Rightarrow> 'a \<Rightarrow> 'a \<times> error option"

definition genericPipedCloudProvider_zero :: genericPipedCloudProvider where
  "genericPipedCloudProvider_zero =
     \<lparr>genericPipedCloudProvider.Name = '''',
      genericPipedCloudProvider.Type = CloudProviderTypeOther '''',
      genericPipedCloudProvider.Config = []\<rparr>"

definition CloudProviderTerraformConfig_zero :: CloudProviderTerraformConfig where
  "CloudProviderTerraformConfig_zero = \<lparr>Vars = []\<rparr>"

definition CloudProviderCloudRunConfig_zero :: CloudProviderCloudRunConfig where
  "CloudProviderCloudRunConfig_zero =
     \<lparr>Project = '''', CloudProviderCloudRunConfig.Region = '''', CredentialsFile = ''''\<rparr>"

definition CloudProviderLambdaConfig_zero :: CloudProviderLambdaConfig where
  "CloudProviderLambdaConfig_zero = \<lparr>CloudProviderLambdaConfig.Region = ''''\<rparr>"

definition PipedCloudProvider_UnmarshalJSON ::
  "genericPipedCloudProvider json_Unmarshal \<Rightarrow>
   CloudProviderKubernetesConfig json_Unmarshal \<Rightarrow>
   CloudProviderTerraformConfig json_Unmarshal \<Rightarrow>
   CloudProviderCloudRunConfig json_Unmarshal \<Rightarrow>
   CloudProviderLambdaConfig json_Unmarshal \<Rightarrow>
   bytes \<Rightarrow> PipedCloudProvider \<Rightarrow> PipedCloudProvider \<times> error option"
where
  "PipedCloudProvider_UnmarshalJSON unmarshal unmarshalK unmarshalT unmarshalC unmarshalL data p0 =
     (case unmarshal data genericPipedCloudProvider_zero of
        (gp, Some err) \<Rightarrow> (p0, Some err)
      | (gp, None) \<Rightarrow>
          let p = p0\<lparr>PipedCloudProvider.Name := genericPipedCloudProvider.Name gp,
                     PipedCloudProvider.Type := genericPipedCloudProvider.Type gp\<rparr>;
              config = genericPipedCloudProvider.Config gp
          in (case PipedCloudProvider.Type p of
                CloudProviderKubernetes \<Rightarrow>
                  if length config > 0
                  then (case unmarshalK config CloudProviderKubernetesConfig_zero of
                          (c, err) \<Rightarrow> (p\<lparr>KubernetesConfig := Some c\<rparr>, err))
                  else (p\<lparr>KubernetesConfig := Some CloudProviderKubernetesConfig_zero\<rparr>, None)
              | CloudProviderTerraform \<Rightarrow>
                  if length config > 0
                  then (case unmarshalT config CloudProviderTerraformConfig_zero of
                          (c, err) \<Rightarrow> (p\<lparr>TerraformConfig := Some c\<rparr>, err))
                  else (p\<lparr>TerraformConfig := Some CloudProviderTerraformConfig_zero\<rparr>, None)
              | CloudProviderCloudRun \<Rightarrow>
                  if length config > 0
                  then (case unmarshalC config CloudProviderCloudRunConfig_zero of
                          (c, err) \<Rightarrow> (p\<lparr>CloudRunConfig := Some c\<rparr>, err))
                  else (p\<lparr>CloudRunConfig := Some CloudProviderCloudRunConfig_zero\<rparr>, None)
              | CloudProviderLambda \<Rightarrow>
                  if length config > 0
                  then (case unmarshalL config CloudProviderLambdaConfig_zero of
                          (c, err) \<Rightarrow> (p\<lparr>LambdaConfig := Some c\<rparr>, err))
                  else (p\<lparr>LambdaConfig := Some CloudProviderLambdaConfig_zero\<rparr>, None)
              | CloudProviderTypeOther _ \<Rightarrow>
                  (p, Some (UnsupportedCloudProviderType (PipedCloudProvider.Name p)))))"

definition genericPipedImageProvider_zero :: genericPipedImageProvider where
  "genericPipedImageProvider_zero =
     \<lparr>genericPipedImageProvider.Name = '''',
      genericPipedImageProvider.Type = ImageProviderTypeOther '''',
      genericPipedImageProvider.PullInterval = 0,
      genericPipedImageProvider.Config = []\<rparr>"

definition ImageProviderDockerhubConfig_zero :: ImageProviderDockerhubConfig where
  "ImageProviderDockerhubConfig_zero =
     \<lparr>ImageProviderDockerhubConfig.Username = '''',
      ImageProviderDockerhubConfig.PasswordFile = ''''\<rparr>"

definition ImageProviderGCRConfig_zero :: ImageProviderGCRConfig where
  "ImageProviderGCRConfig_zero = \<lparr>Domain = ''''\<rparr>"

definition PipedImageProvider_UnmarshalJSON ::
  "genericPipedImageProvider json_Unmarshal \<Rightarrow>
   ImageProviderDockerhubConfig json_Unmarshal \<Rightarrow>
   ImageProviderGCRConfig json_Unmarshal \<Rightarrow>
   ImageProviderECRConfig json_Unmarshal \<Rightarrow>
   bytes \<Rightarrow> PipedImageProvider \<Rightarrow> PipedImageProvider \<times> error option"
where
  "PipedImageProvider_UnmarshalJSON unmarshal unmarshalD unmarshalG unmarshalE data p0 =
     (case unmarshal data genericPipedImageProvider_zero of
        (gp, Some err) \<Rightarrow> (p0, Some err)
      | (gp, None) \<Rightarrow>
          let p1 = p0\<lparr>PipedImageProvider.Name := genericPipedImageProvider.Name gp,
                      PipedImageProvider.Type := genericPipedImageProvider.Type gp,
                      PipedImageProvider.PullInterval :=
                        genericPipedImageProvider.PullInterval gp\<rparr>;
              p = (if PipedImageProvider.PullInterval p1 = 0
                   then p1\<lparr>PipedImageProvider.PullInterval := time_Minute * 5\<rparr> else p1);
              config = genericPipedImageProvider.Config gp
          in (case PipedImageProvider.Type p of
                ImageProviderTypeDockerhub \<Rightarrow>
                  if length config > 0
                  then (case unmarshalD config ImageProviderDockerhubConfig_zero of
                          (c, err) \<Rightarrow> (p\<lparr>DockerhubConfig := Some c\<rparr>, err))
                  else (p\<lparr>DockerhubConfig := Some ImageProviderDockerhubConfig_zero\<rparr>, None)
              | ImageProviderTypeGCR \<Rightarrow>
                  if length config > 0
                  then (case unmarshalG config ImageProviderGCRConfig_zero of
                          (c, err) \<Rightarrow> (p\<lparr>GCRConfig := Some c\<rparr>, err))
                  else (p\<lparr>GCRConfig := Some ImageProviderGCRConfig_zero\<rparr>, None)
              | ImageProviderTypeECR \<Rightarrow>
                  if length config > 0
                  then (case unmarshalE config ImageProviderECRConfig of
                          (c, err) \<Rightarrow> (p\<lparr>ECRConfig := Some c\<rparr>, err))
                  else (p\<lparr>ECRConfig := Some ImageProviderECRConfig\<rparr>, None)
              | ImageProviderTypeOther _ \<Rightarrow>
                  (p, Some (UnsupportedImageProviderType (PipedImageProvider.Name p)))))"

section \<open>Example configurations\<close>

text \<open>Concrete values at which the theorems below are instantiated.\<close>

definition example_spec :: PipedSpec where
  "example_spec =
     \<lparr>ProjectID = ''project-1'', PipedID = ''piped-1'', PipedKeyFile = ''/etc/piped/key'',
      APIAddress = ''api.example.com:443'', WebAddress = ''https://web.example.com'',
      SyncInterval = 0,
      Git = \<lparr>PipedGit.Username = '''', Email = '''', SSHConfigFilePath = '''', Host = '''',
             HostName = '''', SSHKeyFile = ''''\<rparr>,
      Repositories = [], ChartRepositories = [], CloudProviders = [],
      AnalysisProviders = [], ImageProviders = [],
      Notifications = \<lparr>Routes = [], Receivers = []\<rparr>,
      SealedSecretManagement = None\<rparr>"

definition example_sealing_key :: SealedSecretManagement where
  "example_sealing_key =
     \<lparr>SealedSecretManagement.Type = SealedSecretManagementSealingKey,
      SealingKeyConfig = Some \<lparr>PrivateKeyFile = ''/etc/piped/private.pem'',
                               PublicKeyFile = ''/etc/piped/public.pem''\<rparr>,
      GCPKMSConfig = None\<rparr>"

definition example_unknown_secret_management :: SealedSecretManagement where
  "example_unknown_secret_management =
     \<lparr>SealedSecretManagement.Type = SealedSecretManagementTypeOther ''AWS_KMS'',
      SealingKeyConfig = None, GCPKMSConfig = None\<rparr>"

definition example_terraform_provider :: PipedCloudProvider where
  "example_terraform_provider =
     \<lparr>PipedCloudProvider.Name = ''dev'', PipedCloudProvider.Type = CloudProviderTerraform,
      KubernetesConfig = None, TerraformConfig = Some \<lparr>Vars = []\<rparr>,
      CloudRunConfig = None, LambdaConfig = None\<rparr>"

definition example_kubernetes_provider :: "string \<Rightarrow> PipedCloudProvider" where
  "example_kubernetes_provider url =
     \<lparr>PipedCloudProvider.Name = ''dev'', PipedCloudProvider.Type = CloudProviderKubernetes,
      KubernetesConfig = Some (CloudProviderKubernetesConfig_zero\<lparr>MasterURL := url\<rparr>),
      TerraformConfig = None, CloudRunConfig = None, LambdaConfig = None\<rparr>"

definition example_unmarshal_cloud :: "genericPipedCloudProvider json_Unmarshal" where
  \<comment> \<open>decodes a document naming a provider \<open>ecs-prod\<close> of the unknown type \<open>ECS\<close>\<close>
  "example_unmarshal_cloud data gp =
     (gp\<lparr>genericPipedCloudProvider.Name := ''ecs-prod'',
         genericPipedCloudProvider.Type := CloudProviderTypeOther ''ECS''\<rparr>, None)"

definition example_unmarshal_image ::
  "ImageProviderType \<Rightarrow> Duration \<Rightarrow> genericPipedImageProvider json_Unmarshal"
where
  \<comment> \<open>decodes a document naming a provider \<open>registry\<close> of the given type and pull interval\<close>
  "example_unmarshal_image t d data gp =
     (gp\<lparr>genericPipedImageProvider.Name := ''registry'',
         genericPipedImageProvider.Type := t,
         genericPipedImageProvider.PullInterval := d\<rparr>, None)"

definition example_unmarshal_config :: "'a json_Unmarshal" where
  \<comment> \<open>decodes an empty object: the target stays as it is\<close>
  "example_unmarshal_config data c = (c, None)"

definition example_image_provider :: PipedImageProvider where
  "example_image_provider =
     \<lparr>PipedImageProvider.Name = '''', PipedImageProvider.Type = ImageProviderTypeOther '''',
      PipedImageProvider.PullInterval = 0,
      DockerhubConfig = None, GCRConfig = None, ECRConfig = None\<rparr>"

section \<open>Properties of the executor registry\<close>

text \<open>
  C1. Registering a factory for a new stage kind on the registry returned by
  \<open>DefaultRegistry()\<close> is claimed to succeed. The code does not get that far: the
  registry's map is nil, the lookup finds nothing, and the assignment panics. This holds
  for every stage kind and factory, and the registry is left as it was.
\<close>

theorem Register_DefaultRegistry_panics:
  "Register DefaultRegistry k f = (DefaultRegistry, Panics AssignmentToNilMap)"
  by (simp add: Register_def DefaultRegistry_def defaultRegistry_def map_lookup_def map_assign_def)

text \<open>
  C2. In a registry where stage kind \<open>k\<close> is bound to a factory, registering \<open>k\<close> again
  with any factory returns the already-registered error and leaves the registry,
  and so the binding of \<open>k\<close>, as it was.
\<close>

theorem Register_twice_fails:
  assumes "map_lookup (factories r) k = Some f"
  shows "Register r k f' = (r, Returns (Some (StageAlreadyRegistered k)))
         \<and> map_lookup (factories (fst (Register r k f'))) k = Some f"
  using assms by (simp add: Register_def)

theorem Register_twice_fails_witness:
  "map_lookup (factories \<lparr>factories = Some [''K8S_SYNC'' \<mapsto> (\<lambda>i::nat. i + 1)]\<rparr>) ''K8S_SYNC''
     = Some (\<lambda>i. i + 1)
   \<and> Register \<lparr>factories = Some [''K8S_SYNC'' \<mapsto> (\<lambda>i::nat. i + 1)]\<rparr> ''K8S_SYNC'' (\<lambda>i. 0)
     = (\<lparr>factories = Some [''K8S_SYNC'' \<mapsto> (\<lambda>i::nat. i + 1)]\<rparr>,
        Returns (Some (StageAlreadyRegistered ''K8S_SYNC'')))"
proof -
  have h: "map_lookup (factories \<lparr>factories = Some [''K8S_SYNC'' \<mapsto> (\<lambda>i::nat. i + 1)]\<rparr>)
             ''K8S_SYNC'' = Some (\<lambda>i. i + 1)"
    by (simp add: map_lookup_def)
  from Register_twice_fails [OF h, of "\<lambda>i. 0"] h show ?thesis by simp
qed

text \<open>
  C3. In any registry, with a nil map or an allocated one, looking up a stage kind that
  has no factory returns the no-registered-executor error for every input, and the
  registry is the same afterwards.
\<close>

theorem Executor_unknown_stage:
  assumes "map_lookup (factories r) k = None"
  shows "Executor r k i = (r, Inl (NoRegisteredExecutor k))"
  using assms by (simp add: Executor_def)

theorem Executor_unknown_stage_witness:
  "map_lookup (factories (DefaultRegistry :: (nat, nat) registry)) ''WAIT'' = None
   \<and> Executor (DefaultRegistry :: (nat, nat) registry) ''WAIT'' 7
     = (DefaultRegistry, Inl (NoRegisteredExecutor ''WAIT''))"
proof -
  have h: "map_lookup (factories (DefaultRegistry :: (nat, nat) registry)) ''WAIT'' = None"
    by (simp add: map_lookup_def DefaultRegistry_def defaultRegistry_def)
  from Executor_unknown_stage [OF h, of 7] h show ?thesis by simp
qed

section \<open>Properties of the piped configuration\<close>

subsection \<open>Decoding provider documents\<close>

text \<open>
  C4. A provider document whose \<open>type\<close> tag is none of the recognised ones is refused.
  For a cloud provider the recognised tags are Kubernetes, Terraform, CloudRun and
  Lambda, for an image provider Dockerhub, GCR and ECR. Whatever the decoders do, the
  method returns an error: the decoder's own when the document does not decode, and the
  unsupported-type error otherwise.
\<close>

theorem UnmarshalJSON_unknown_type:
  "(unmarshal data genericPipedCloudProvider_zero = (gp, e)
      \<and> genericPipedCloudProvider.Type gp \<notin> {CloudProviderKubernetes, CloudProviderTerraform,
                                                CloudProviderCloudRun, CloudProviderLambda}
     \<longrightarrow> snd (PipedCloudProvider_UnmarshalJSON unmarshal uK uT uC uL data p)
         = Some (case e of Some err \<Rightarrow> err
                 | None \<Rightarrow> UnsupportedCloudProviderType (genericPipedCloudProvider.Name gp)))
   \<and> (unmarshal' data genericPipedImageProvider_zero = (gi, e')
      \<and> genericPipedImageProvider.Type gi \<notin> {ImageProviderTypeDockerhub, ImageProviderTypeGCR,
                                                ImageProviderTypeECR}
     \<longrightarrow> snd (PipedImageProvider_UnmarshalJSON unmarshal' uD uG uE data q)
         = Some (case e' of Some err \<Rightarrow> err
                 | None \<Rightarrow> UnsupportedImageProviderType (genericPipedImageProvider.Name gi)))"
proof (intro conjI impI)
  assume a: "unmarshal data genericPipedCloudProvider_zero = (gp, e)
      \<and> genericPipedCloudProvider.Type gp \<notin> {CloudProviderKubernetes, CloudProviderTerraform,
                                                CloudProviderCloudRun, CloudProviderLambda}"
  then obtain x where "genericPipedCloudProvider.Type gp = CloudProviderTypeOther x"
    by (cases "genericPipedCloudProvider.Type gp") auto
  with a show "snd (PipedCloudProvider_UnmarshalJSON unmarshal uK uT uC uL data p)
         = Some (case e of Some err \<Rightarrow> err
                 | None \<Rightarrow> UnsupportedCloudProviderType (genericPipedCloudProvider.Name gp))"
    by (cases e) (simp_all add: PipedCloudProvider_UnmarshalJSON_def)
next
  assume a: "unmarshal' data genericPipedImageProvider_zero = (gi, e')
      \<and> genericPipedImageProvider.Type gi \<notin> {ImageProviderTypeDockerhub, ImageProviderTypeGCR,
                                                ImageProviderTypeECR}"
  then obtain x where "genericPipedImageProvider.Type gi = ImageProviderTypeOther x"
    by (cases "genericPipedImageProvider.Type gi") auto
  with a show "snd (PipedImageProvider_UnmarshalJSON unmarshal' uD uG uE data q)
         = Some (case e' of Some err \<Rightarrow> err
                 | None \<Rightarrow> UnsupportedImageProviderType (genericPipedImageProvider.Name gi))"
    by (cases e') (simp_all add: PipedImageProvider_UnmarshalJSON_def Let_def)
qed

theorem UnmarshalJSON_unknown_type_witness:
  "snd (PipedCloudProvider_UnmarshalJSON example_unmarshal_cloud example_unmarshal_config
          example_unmarshal_config example_unmarshal_config example_unmarshal_config
          [] PipedCloudProvider_zero)
     = Some (UnsupportedCloudProviderType ''ecs-prod'')
   \<and> snd (PipedImageProvider_UnmarshalJSON
            (example_unmarshal_image (ImageProviderTypeOther ''QUAY'') 0)
            example_unmarshal_config example_unmarshal_config example_unmarshal_config
            [] example_image_provider)
     = Some (UnsupportedImageProviderType ''registry'')"
proof -
  let ?gp = "genericPipedCloudProvider_zero
               \<lparr>genericPipedCloudProvider.Name := ''ecs-prod'',
                genericPipedCloudProvider.Type := CloudProviderTypeOther ''ECS''\<rparr>"
  let ?gi = "genericPipedImageProvider_zero
               \<lparr>genericPipedImageProvider.Name := ''registry'',
                genericPipedImageProvider.Type := ImageProviderTypeOther ''QUAY'',
                genericPipedImageProvider.PullInterval := 0\<rparr>"
  have h1: "example_unmarshal_cloud [] genericPipedCloudProvider_zero = (?gp, None)
            \<and> genericPipedCloudProvider.Type ?gp
                \<notin> {CloudProviderKubernetes, CloudProviderTerraform,
                    CloudProviderCloudRun, CloudProviderLambda}"
    by (simp add: example_unmarshal_cloud_def)
  have h2: "example_unmarshal_image (ImageProviderTypeOther ''QUAY'') 0 []
              genericPipedImageProvider_zero = (?gi, None)
            \<and> genericPipedImageProvider.Type ?gi
                \<notin> {ImageProviderTypeDockerhub, ImageProviderTypeGCR, ImageProviderTypeECR}"
    by (simp add: example_unmarshal_image_def)
  from UnmarshalJSON_unknown_type
         [of example_unmarshal_cloud "[]" ?gp None
             example_unmarshal_config example_unmarshal_config
             example_unmarshal_config example_unmarshal_config PipedCloudProvider_zero
             "example_unmarshal_image (ImageProviderTypeOther ''QUAY'') 0" ?gi None
             example_unmarshal_config example_unmarshal_config example_unmarshal_config
             example_image_provider]
       h1 h2
  show ?thesis by simp
qed

text \<open>
  C7. When an image-provider document decodes, the provider's \<open>PullInterval\<close> is five
  minutes (300000000000 ns) if the document's \<open>pullInterval\<close> decoded to zero, which is
  also what an absent field leaves, and the decoded value otherwise. This holds for
  every type tag, also when the method then refuses the tag or the type's own
  configuration.
\<close>

theorem UnmarshalJSON_PullInterval:
  assumes "unmarshal data genericPipedImageProvider_zero = (gp, None)"
  shows "PipedImageProvider.PullInterval
           (fst (PipedImageProvider_UnmarshalJSON unmarshal uD uG uE data p0))
         = (if genericPipedImageProvider.PullInterval gp = 0 then time_Minute * 5
            else genericPipedImageProvider.PullInterval gp)
         \<and> time_Minute * 5 = 300000000000"
  using assms
  by (cases "genericPipedImageProvider.Type gp")
     (simp_all add: PipedImageProvider_UnmarshalJSON_def Let_def time_Minute_def time_Second_def
        split: prod.splits)

theorem UnmarshalJSON_PullInterval_witness:
  "PipedImageProvider.PullInterval
     (fst (PipedImageProvider_UnmarshalJSON (example_unmarshal_image ImageProviderTypeECR 0)
             example_unmarshal_config example_unmarshal_config example_unmarshal_config
             [] example_image_provider)) = 300000000000
   \<and> PipedImageProvider.PullInterval
     (fst (PipedImageProvider_UnmarshalJSON
             (example_unmarshal_image ImageProviderTypeGCR 90000000000)
             example_unmarshal_config example_unmarshal_config example_unmarshal_config
             [] example_image_provider)) = 90000000000"
proof -
  let ?g0 = "genericPipedImageProvider_zero
               \<lparr>genericPipedImageProvider.Name := ''registry'',
                genericPipedImageProvider.Type := ImageProviderTypeECR,
                genericPipedImageProvider.PullInterval := 0\<rparr>"
  let ?g1 = "genericPipedImageProvider_zero
               \<lparr>genericPipedImageProvider.Name := ''registry'',
                genericPipedImageProvider.Type := ImageProviderTypeGCR,
                genericPipedImageProvider.PullInterval := 90000000000\<rparr>"
  have h0: "example_unmarshal_image ImageProviderTypeECR 0 [] genericPipedImageProvider_zero
              = (?g0, None)"
    by (simp add: example_unmarshal_image_def)
  have h1: "example_unmarshal_image ImageProviderTypeGCR 90000000000 []
              genericPipedImageProvider_zero = (?g1, None)"
    by (simp add: example_unmarshal_image_def)
  from UnmarshalJSON_PullInterval
         [of "example_unmarshal_image ImageProviderTypeECR 0" "[]" ?g0
             example_unmarshal_config example_unmarshal_config example_unmarshal_config
             example_image_provider]
       UnmarshalJSON_PullInterval
         [of "example_unmarshal_image ImageProviderTypeGCR 90000000000" "[]" ?g1
             example_unmarshal_config example_unmarshal_config example_unmarshal_config
             example_image_provider]
       h0 h1
  show ?thesis by simp
qed

subsection \<open>Validation\<close>

text \<open>
  C5. \<open>PipedSpec.Validate\<close> returns an error when one of \<open>ProjectID\<close>, \<open>PipedID\<close>,
  \<open>PipedKeyFile\<close>, \<open>APIAddress\<close>, \<open>WebAddress\<close> is the empty string, or when
  \<open>SealedSecretManagement\<close> is present and its own \<open>Validate\<close> returns an error. When
  the five fields are non-empty and \<open>SealedSecretManagement\<close> is absent or its
  \<open>Validate\<close> returns nil, \<open>PipedSpec.Validate\<close> returns nil.
\<close>

theorem PipedSpec_Validate_result:
  "((ProjectID s = '''' \<or> PipedID s = '''' \<or> PipedKeyFile s = '''' \<or> APIAddress s = ''''
      \<or> WebAddress s = ''''
      \<or> (\<exists>m e. SealedSecretManagement s = Some m
                 \<and> SealedSecretManagement_Validate m = Returns (Some e)))
     \<longrightarrow> (\<exists>e. snd (PipedSpec_Validate s) = Returns (Some e)))
   \<and> (ProjectID s \<noteq> '''' \<and> PipedID s \<noteq> '''' \<and> PipedKeyFile s \<noteq> '''' \<and> APIAddress s \<noteq> ''''
      \<and> WebAddress s \<noteq> ''''
      \<and> (SealedSecretManagement s = None
         \<or> (\<exists>m. SealedSecretManagement s = Some m
                \<and> SealedSecretManagement_Validate m = Returns None))
     \<longrightarrow> snd (PipedSpec_Validate s) = Returns None)"
  by (auto simp: PipedSpec_Validate_def Let_def split: option.splits outcome.splits)

theorem PipedSpec_Validate_result_witness:
  "(\<exists>e. snd (PipedSpec_Validate (example_spec\<lparr>APIAddress := ''''\<rparr>)) = Returns (Some e))
   \<and> (\<exists>e. snd (PipedSpec_Validate
               (example_spec\<lparr>SealedSecretManagement := Some example_unknown_secret_management\<rparr>))
          = Returns (Some e))
   \<and> snd (PipedSpec_Validate example_spec) = Returns None
   \<and> snd (PipedSpec_Validate (example_spec\<lparr>SealedSecretManagement := Some example_sealing_key\<rparr>))
       = Returns None"
proof -
  have h1: "APIAddress (example_spec\<lparr>APIAddress := ''''\<rparr>) = ''''" by simp
  have h2: "\<exists>m e. SealedSecretManagement
                (example_spec\<lparr>SealedSecretManagement := Some example_unknown_secret_management\<rparr>)
               = Some m \<and> SealedSecretManagement_Validate m = Returns (Some e)"
    by (simp add: SealedSecretManagement_Validate_def example_unknown_secret_management_def)
  have h3: "ProjectID example_spec \<noteq> '''' \<and> PipedID example_spec \<noteq> ''''
            \<and> PipedKeyFile example_spec \<noteq> '''' \<and> APIAddress example_spec \<noteq> ''''
            \<and> WebAddress example_spec \<noteq> '''' \<and> SealedSecretManagement example_spec = None"
    by (simp add: example_spec_def)
  have h4: "SealedSecretManagement_Validate example_sealing_key = Returns None"
    by (simp add: SealedSecretManagement_Validate_def example_sealing_key_def
        SealedSecretManagementSealingKey_Validate_def)
  from PipedSpec_Validate_result [of "example_spec\<lparr>APIAddress := ''''\<rparr>"] h1
  have a: "\<exists>e. snd (PipedSpec_Validate (example_spec\<lparr>APIAddress := ''''\<rparr>)) = Returns (Some e)"
    by blast
  from PipedSpec_Validate_result
         [of "example_spec\<lparr>SealedSecretManagement := Some example_unknown_secret_management\<rparr>"]
       h2
  have b: "\<exists>e. snd (PipedSpec_Validate
               (example_spec\<lparr>SealedSecretManagement := Some example_unknown_secret_management\<rparr>))
          = Returns (Some e)"
    by blast
  from PipedSpec_Validate_result [of example_spec] h3
  have c: "snd (PipedSpec_Validate example_spec) = Returns None" by blast
  from PipedSpec_Validate_result
         [of "example_spec\<lparr>SealedSecretManagement := Some example_sealing_key\<rparr>"] h3 h4
  have d: "snd (PipedSpec_Validate
                  (example_spec\<lparr>SealedSecretManagement := Some example_sealing_key\<rparr>))
             = Returns None"
    by simp
  from a b c d show ?thesis by blast
qed

text \<open>
  C6. A spec whose \<open>SyncInterval\<close> was left unset is claimed to have a \<open>SyncInterval\<close>
  of one minute after a successful \<open>Validate\<close>. The code replaces negative values
  only: on the example spec, whose \<open>SyncInterval\<close> is zero, \<open>Validate\<close> returns nil
  and the spec is exactly as before, with \<open>SyncInterval\<close> still zero.
\<close>

theorem PipedSpec_Validate_zero_SyncInterval:
  "PipedSpec_Validate example_spec = (example_spec, Returns None)
   \<and> SyncInterval example_spec = 0
   \<and> SyncInterval (fst (PipedSpec_Validate example_spec)) = 0
   \<and> SyncInterval (fst (PipedSpec_Validate example_spec)) \<noteq> time_Minute"
  by (simp add: PipedSpec_Validate_def example_spec_def time_Minute_def time_Second_def)

text \<open>
  C10. \<open>PipedSpec.Validate\<close> changes no field other than \<open>SyncInterval\<close>: putting the
  old \<open>SyncInterval\<close> back into the spec it leaves gives the spec it was called on,
  whatever it returns. And \<open>SyncInterval\<close> itself differs afterwards only if it was
  negative.
\<close>

theorem PipedSpec_Validate_frame:
  "(fst (PipedSpec_Validate s))\<lparr>SyncInterval := SyncInterval s\<rparr> = s
   \<and> (SyncInterval (fst (PipedSpec_Validate s)) \<noteq> SyncInterval s
      \<longrightarrow> sint (SyncInterval s) < 0)"
  by (auto simp: PipedSpec_Validate_def Let_def split: option.splits outcome.splits)

theorem PipedSpec_Validate_frame_witness:
  "SyncInterval (fst (PipedSpec_Validate (example_spec\<lparr>SyncInterval := - 1\<rparr>)))
      \<noteq> SyncInterval (example_spec\<lparr>SyncInterval := - 1\<rparr>)
   \<and> sint (SyncInterval (example_spec\<lparr>SyncInterval := - 1\<rparr>)) < 0
   \<and> (fst (PipedSpec_Validate (example_spec\<lparr>SyncInterval := - 1\<rparr>)))\<lparr>SyncInterval := - 1\<rparr>
       = example_spec\<lparr>SyncInterval := - 1\<rparr>"
proof -
  have h: "SyncInterval (fst (PipedSpec_Validate (example_spec\<lparr>SyncInterval := - 1\<rparr>)))
      \<noteq> SyncInterval (example_spec\<lparr>SyncInterval := - 1\<rparr>)"
    by (simp add: PipedSpec_Validate_def example_spec_def time_Minute_def time_Second_def)
  from PipedSpec_Validate_frame [of "example_spec\<lparr>SyncInterval := - 1\<rparr>"] h
  show ?thesis by simp
qed

subsection \<open>Cloud providers of a spec\<close>

lemma DefaultKubernetesCloudProvider_Name:
  "PipedCloudProvider.Name DefaultKubernetesCloudProvider = ''kubernetes-default''"
  by (simp add: DefaultKubernetesCloudProvider_def)

lemma EnableDefaultKubernetesCloudProvider_loop_iff:
  "EnableDefaultKubernetesCloudProvider_loop cps
     \<longleftrightarrow> ''kubernetes-default'' \<in> set (map PipedCloudProvider.Name cps)"
  by (induction cps) (auto simp: DefaultKubernetesCloudProvider_Name)

lemma count_list_snoc:
  "count_list (xs @ [y]) x = count_list xs x + (if y = x then 1 else 0)"
  by (induction xs) auto

text \<open>
  C8, as stated, asks for exactly one provider named \<open>kubernetes-default\<close> after one
  application, for every spec. A spec that lists two providers of that name is left as
  it is, and still has two.
\<close>

theorem EnableDefaultKubernetesCloudProvider_two_defaults:
  "count_list (map PipedCloudProvider.Name
      (CloudProviders (EnableDefaultKubernetesCloudProvider
         (example_spec\<lparr>CloudProviders :=
            [DefaultKubernetesCloudProvider, DefaultKubernetesCloudProvider]\<rparr>))))
      ''kubernetes-default'' \<noteq> 1"
  by (simp add: EnableDefaultKubernetesCloudProvider_def DefaultKubernetesCloudProvider_Name)

text \<open>
  C8, amended. \<open>EnableDefaultKubernetesCloudProvider\<close> is idempotent: applying it twice
  gives the same spec, and so the same \<open>CloudProviders\<close> list, as applying it once.
  After one application the number of providers named \<open>kubernetes-default\<close> is the
  number the spec had before, or one if it had none: at least one, and exactly one when
  the spec had at most one. If the spec already had a provider of that name, it is
  unchanged.
\<close>

theorem EnableDefaultKubernetesCloudProvider_idempotent:
  "EnableDefaultKubernetesCloudProvider (EnableDefaultKubernetesCloudProvider s)
     = EnableDefaultKubernetesCloudProvider s
   \<and> count_list (map PipedCloudProvider.Name
                   (CloudProviders (EnableDefaultKubernetesCloudProvider s)))
        ''kubernetes-default''
     = max 1 (count_list (map PipedCloudProvider.Name (CloudProviders s)) ''kubernetes-default'')
   \<and> (''kubernetes-default'' \<in> set (map PipedCloudProvider.Name (CloudProviders s))
      \<longrightarrow> EnableDefaultKubernetesCloudProvider s = s)"
proof (cases "''kubernetes-default'' \<in> set (map PipedCloudProvider.Name (CloudProviders s))")
  case True
  then have "EnableDefaultKubernetesCloudProvider s = s"
    by (simp add: EnableDefaultKubernetesCloudProvider_def
        EnableDefaultKubernetesCloudProvider_loop_iff)
  moreover from True
  have "count_list (map PipedCloudProvider.Name (CloudProviders s)) ''kubernetes-default'' \<noteq> 0"
    using count_list_0_iff [of "map PipedCloudProvider.Name (CloudProviders s)"
        "''kubernetes-default''"]
    by blast
  ultimately show ?thesis by simp
next
  case False
  then have e: "EnableDefaultKubernetesCloudProvider s
                  = s\<lparr>CloudProviders := CloudProviders s @ [DefaultKubernetesCloudProvider]\<rparr>"
    by (simp add: EnableDefaultKubernetesCloudProvider_def
        EnableDefaultKubernetesCloudProvider_loop_iff)
  from False
  have z: "count_list (map PipedCloudProvider.Name (CloudProviders s)) ''kubernetes-default'' = 0"
    using count_list_0_iff [of "map PipedCloudProvider.Name (CloudProviders s)"
        "''kubernetes-default''"]
    by blast
  have l: "EnableDefaultKubernetesCloudProvider_loop
             (CloudProviders s @ [DefaultKubernetesCloudProvider])"
    by (simp add: EnableDefaultKubernetesCloudProvider_loop_iff
        DefaultKubernetesCloudProvider_Name)
  from e l have "EnableDefaultKubernetesCloudProvider (EnableDefaultKubernetesCloudProvider s)
     = EnableDefaultKubernetesCloudProvider s"
    by (simp add: EnableDefaultKubernetesCloudProvider_def)
  with e z False show ?thesis
    by (simp add: count_list_snoc DefaultKubernetesCloudProvider_Name)
qed

theorem EnableDefaultKubernetesCloudProvider_idempotent_witness:
  "''kubernetes-default'' \<in> set (map PipedCloudProvider.Name
      (CloudProviders (example_spec\<lparr>CloudProviders := [DefaultKubernetesCloudProvider]\<rparr>)))
   \<and> EnableDefaultKubernetesCloudProvider
        (example_spec\<lparr>CloudProviders := [DefaultKubernetesCloudProvider]\<rparr>)
      = example_spec\<lparr>CloudProviders := [DefaultKubernetesCloudProvider]\<rparr>
   \<and> count_list (map PipedCloudProvider.Name
        (CloudProviders (EnableDefaultKubernetesCloudProvider
           (example_spec\<lparr>CloudProviders := [DefaultKubernetesCloudProvider]\<rparr>))))
        ''kubernetes-default'' = 1"
proof -
  have h: "''kubernetes-default'' \<in> set (map PipedCloudProvider.Name
      (CloudProviders (example_spec\<lparr>CloudProviders := [DefaultKubernetesCloudProvider]\<rparr>)))"
    by (simp add: DefaultKubernetesCloudProvider_Name)
  from EnableDefaultKubernetesCloudProvider_idempotent
         [of "example_spec\<lparr>CloudProviders := [DefaultKubernetesCloudProvider]\<rparr>"] h
  show ?thesis by (simp add: DefaultKubernetesCloudProvider_Name)
qed

lemma HasCloudProvider_loop_Find:
  "HasCloudProvider_loop cps n t = snd (FindCloudProvider_loop cps n t)"
  by (induction cps) auto

lemma FindCloudProvider_loop_first:
  "snd (FindCloudProvider_loop cps n t) \<Longrightarrow>
   \<exists>pre post. cps = pre @ fst (FindCloudProvider_loop cps n t) # post
     \<and> (\<forall>q \<in> set pre. \<not> (PipedCloudProvider.Name q = n \<and> PipedCloudProvider.Type q = t))
     \<and> PipedCloudProvider.Name (fst (FindCloudProvider_loop cps n t)) = n
     \<and> PipedCloudProvider.Type (fst (FindCloudProvider_loop cps n t)) = t"
proof (induction cps)
  case Nil
  then show ?case by simp
next
  case (Cons p ps)
  show ?case
  proof (cases "PipedCloudProvider.Name p = n \<and> PipedCloudProvider.Type p = t")
    case True
    then have "FindCloudProvider_loop (p # ps) n t = (p, True)" by simp
    with True show ?thesis by (intro exI [of _ "[]"] exI [of _ ps]) simp
  next
    case False
    then have eq: "FindCloudProvider_loop (p # ps) n t = FindCloudProvider_loop ps n t"
      by auto
    with Cons obtain pre post where
      pp: "ps = pre @ fst (FindCloudProvider_loop ps n t) # post"
          "\<forall>q \<in> set pre. \<not> (PipedCloudProvider.Name q = n \<and> PipedCloudProvider.Type q = t)"
          "PipedCloudProvider.Name (fst (FindCloudProvider_loop ps n t)) = n"
          "PipedCloudProvider.Type (fst (FindCloudProvider_loop ps n t)) = t"
      by auto
    from pp(1) have "p # ps = (p # pre) @ fst (FindCloudProvider_loop ps n t) # post" by simp
    with pp(2-4) False eq show ?thesis
      by (intro exI [of _ "p # pre"] exI [of _ post]) simp
  qed
qed

text \<open>
  C9. \<open>HasCloudProvider(n, t)\<close> is true exactly when \<open>FindCloudProvider(n, t)\<close> reports
  a provider as found, and the provider it then returns is the first element of
  \<open>CloudProviders\<close> whose \<open>Name\<close> is \<open>n\<close> and whose \<open>Type\<close> is \<open>t\<close>: the list splits
  around it, and no element before it has both.
\<close>

theorem HasCloudProvider_iff_FindCloudProvider:
  "HasCloudProvider s n t = snd (FindCloudProvider s n t)
   \<and> (snd (FindCloudProvider s n t) \<longrightarrow>
       (\<exists>pre post. CloudProviders s = pre @ fst (FindCloudProvider s n t) # post
          \<and> (\<forall>q \<in> set pre. \<not> (PipedCloudProvider.Name q = n \<and> PipedCloudProvider.Type q = t))
          \<and> PipedCloudProvider.Name (fst (FindCloudProvider s n t)) = n
          \<and> PipedCloudProvider.Type (fst (FindCloudProvider s n t)) = t))"
  unfolding HasCloudProvider_def FindCloudProvider_def
  using HasCloudProvider_loop_Find FindCloudProvider_loop_first by blast

theorem HasCloudProvider_iff_FindCloudProvider_witness:
  "snd (FindCloudProvider
          (example_spec\<lparr>CloudProviders :=
             [example_terraform_provider, example_kubernetes_provider ''https://a'',
              example_kubernetes_provider ''https://b'']\<rparr>)
          ''dev'' CloudProviderKubernetes)
   \<and> HasCloudProvider
          (example_spec\<lparr>CloudProviders :=
             [example_terraform_provider, example_kubernetes_provider ''https://a'',
              example_kubernetes_provider ''https://b'']\<rparr>)
          ''dev'' CloudProviderKubernetes
   \<and> fst (FindCloudProvider
          (example_spec\<lparr>CloudProviders :=
             [example_terraform_provider, example_kubernetes_provider ''https://a'',
              example_kubernetes_provider ''https://b'']\<rparr>)
          ''dev'' CloudProviderKubernetes)
     = example_kubernetes_provider ''https://a''"
proof -
  let ?s = "example_spec\<lparr>CloudProviders :=
             [example_terraform_provider, example_kubernetes_provider ''https://a'',
              example_kubernetes_provider ''https://b'']\<rparr>"
  have f: "FindCloudProvider ?s ''dev'' CloudProviderKubernetes
             = (example_kubernetes_provider ''https://a'', True)"
    by (simp add: FindCloudProvider_def example_terraform_provider_def
        example_kubernetes_provider_def)
  then have h: "snd (FindCloudProvider ?s ''dev'' CloudProviderKubernetes)" by simp
  from HasCloudProvider_iff_FindCloudProvider [of ?s "''dev''" CloudProviderKubernetes] h f
  show ?thesis by simp
qed

end
